theory Spec2Isabelle
  imports Main
begin

unbundle bit_operations_syntax

section \<open>Firewall status probe (package security)\<close>

text \<open>
  Go strings are byte sequences; they are modelled as \<open>string\<close> (a list of \<open>char\<close>).
  \<open>strings.Contains s sub\<close> holds when \<open>sub\<close> occurs in \<open>s\<close> as a contiguous run.
\<close>

fun has_prefix :: "string \<Rightarrow> string \<Rightarrow> bool" where
  "has_prefix [] s = True"
| "has_prefix (a # as) [] = False"
| "has_prefix (a # as) (b # bs) = (a = b \<and> has_prefix as bs)"

fun strings_Contains :: "string \<Rightarrow> string \<Rightarrow> bool" where
  "strings_Contains [] sub = (sub = [])"
| "strings_Contains (c # cs) sub = (has_prefix sub (c # cs) \<or> strings_Contains cs sub)"

definition statusLabel :: "string \<Rightarrow> string" where
  "statusLabel str = (if strings_Contains str ''enabled'' then ''on'' else ''off'')"

definition firewallStealthStateLinux :: string where
  "firewallStealthStateLinux = ''[white]N/A[white]''"

text \<open>
  The macOS probe runs an external command through \<open>utils.ExecuteCommand\<close>; the text
  that command prints is the parameter \<open>out\<close>.
\<close>

definition firewallStealthStateMacOS :: "string \<Rightarrow> string" where
  "firewallStealthStateMacOS out = statusLabel out"

definition firewallStealthStateWindows :: string where
  "firewallStealthStateWindows = ''[white]N/A[white]''"

text \<open>
  \<open>FirewallStealthState\<close> switches on \<open>runtime.GOOS\<close>, the first parameter here.
\<close>

definition FirewallStealthState :: "string \<Rightarrow> string \<Rightarrow> string" where
  "FirewallStealthState goos out =
     (if goos = ''linux'' then firewallStealthStateLinux
      else if goos = ''darwin'' then firewallStealthStateMacOS out
      else if goos = ''windows'' then firewallStealthStateWindows
      else [])"

section \<open>Path resolution (package cfg)\<close>

definition XdgConfigDir :: string where
  "XdgConfigDir = ''~/.config/''"

definition WtfConfigDirV1 :: string where
  "WtfConfigDirV1 = ''~/.wtf/''"

definition WtfConfigDirV2 :: string where
  "WtfConfigDirV2 = ''~/.config/wtf/''"

definition WtfConfigFile :: string where
  "WtfConfigFile = ''config.yml''"

definition WtfSecretsFile :: string where
  "WtfSecretsFile = ''secrets.yml''"

text \<open>
  The errors the package builds with \<open>errors.New\<close>, the failure of \<open>user.Current\<close>, and
  the errors of the operating system. \<open>CannotExpandHomeDir\<close> is the error with the text
  "cannot expand user-specific home dir" (the spec's InvalidPathFormat) and
  \<open>CannotFindHomeDir\<close> the one with "cannot find user-specific home dir".
  A \<open>fault\<close> is a failure of a system call for a reason other than the shape of the
  file tree (permissions, a read-only or unsupporting file system, an I/O error).
\<close>

datatype fault = EACCES | EROFS | ENOTSUP | EIO

datatype errno = ENOENT | EEXIST | ENOTDIR | EISDIR | Fault fault

datatype error = CannotExpandHomeDir | CannotFindHomeDir | UserLookupFailed | OsError errno

datatype syscall = SysStat | SysChmod | SysCreate | SysMkdir | SysWrite | SysRemoveAll | SysCopy

text \<open>
  The environment of a run: what \<open>user.Current\<close> reports (\<open>None\<close> when the lookup
  fails, otherwise the \<open>HomeDir\<close> field of the user record), which system calls
  fail on which paths, and the file mode creation mask of the process. The environment
  does not change during a run.
\<close>

record env =
  user_current :: "string option"
  faults :: "syscall \<Rightarrow> string \<Rightarrow> fault option"
  umask :: nat

subsection \<open>\<open>filepath.Clean\<close> and \<open>filepath.Join\<close> on a Unix system\<close>

text \<open>
  \<open>filepath.Join\<close> joins its non-empty arguments with the separator and cleans the
  result. \<open>filepath.Clean\<close> works on the path elements between separators: it drops
  empty elements and \<open>.\<close>, lets \<open>..\<close> cancel the element before it (dropping it at
  the root, keeping it at the front of a relative path), and writes the remaining
  elements with single separators and no trailing separator; the empty result is
  \<open>.\<close>. The separator is \<open>/\<close>.
\<close>

text \<open>The elements of a path: the runs of characters between separators.\<close>

fun split_acc :: "string \<Rightarrow> string \<Rightarrow> string list" where
  "split_acc cur [] = [rev cur]"
| "split_acc cur (c # cs) =
     (if c = CHR ''/'' then rev cur # split_acc [] cs else split_acc (c # cur) cs)"

definition split_sep :: "string \<Rightarrow> string list" where
  "split_sep p = split_acc [] p"

fun join_sep :: "string list \<Rightarrow> string" where
  "join_sep [] = []"
| "join_sep [x] = x"
| "join_sep (x # y # ys) = x @ CHR ''/'' # join_sep (y # ys)"

text \<open>The stack of kept elements, the most recent first.\<close>

definition clean_step :: "bool \<Rightarrow> string list \<Rightarrow> string \<Rightarrow> string list" where
  "clean_step rooted st e =
     (if e = [] \<or> e = ''.'' then st
      else if e = ''..'' then
        (case st of
           [] \<Rightarrow> if rooted then [] else [''..'']
         | t # ts \<Rightarrow> if t = ''..'' then ''..'' # st else ts)
      else e # st)"

definition render :: "bool \<Rightarrow> string list \<Rightarrow> string" where
  "render rooted st =
     (if rooted then CHR ''/'' # join_sep (rev st)
      else if st = [] then ''.'' else join_sep (rev st))"

definition is_rooted :: "string \<Rightarrow> bool" where
  "is_rooted p = (case p of [] \<Rightarrow> False | c # cs \<Rightarrow> c = CHR ''/'')"

definition filepath_Clean :: "string \<Rightarrow> string" where
  "filepath_Clean p =
     (if p = [] then ''.''
      else render (is_rooted p) (foldl (clean_step (is_rooted p)) [] (split_sep p)))"

definition filepath_Join :: "string \<Rightarrow> string \<Rightarrow> string" where
  "filepath_Join a b =
     (if a \<noteq> [] then filepath_Clean (a @ CHR ''/'' # b)
      else if b \<noteq> [] then filepath_Clean b
      else [])"

subsection \<open>\<open>home\<close> and \<open>expandHomeDir\<close>\<close>

definition home :: "env \<Rightarrow> error + string" where
  "home e =
     (case user_current e of
        None \<Rightarrow> Inl UserLookupFailed
      | Some homeDir \<Rightarrow> if homeDir = [] then Inl CannotFindHomeDir else Inr homeDir)"

definition expandHomeDir :: "env \<Rightarrow> string \<Rightarrow> error + string" where
  "expandHomeDir e path =
     (if length path = 0 then Inr path
      else if path ! 0 \<noteq> CHR ''~'' then Inr path
      else if length path > 1 \<and> path ! 1 \<noteq> CHR ''/'' \<and> path ! 1 \<noteq> CHR 0x5C
        then Inl CannotExpandHomeDir
      else (case home e of
              Inl err \<Rightarrow> Inl err
            | Inr dir \<Rightarrow> Inr (filepath_Join dir (tl path))))"

text \<open>
  Several callers drop the error (\<open>absPath, _ := expandHomeDir(relPath)\<close>); on an error
  the function returns the empty string, which is what they go on with.
\<close>

definition path_or_empty :: "error + string \<Rightarrow> string" where
  "path_or_empty r = (case r of Inl err \<Rightarrow> [] | Inr p \<Rightarrow> p)"

definition WtfConfigDir :: "env \<Rightarrow> error + string" where
  "WtfConfigDir e =
     (case expandHomeDir e WtfConfigDirV2 of
        Inl err \<Rightarrow> Inl err
      | Inr configDir \<Rightarrow> Inr configDir)"

section \<open>The file system\<close>

text \<open>
  A file is its content and its permission bits; a directory is the size \<open>os.Stat\<close>
  reports for it and its permission bits. The file tree maps a path to the node
  there. Paths are compared as strings: every path the bootstrap hands to the operating
  system comes out of \<open>filepath.Join\<close>, or is such a path followed by a separator and
  a file name.
\<close>

datatype node = File (content: string) (fmode: nat) | Dir (dsize: nat) (dmode: nat)

type_synonym fs = "string \<Rightarrow> node option"

definition Size :: "node \<Rightarrow> nat" where
  "Size n = (case n of File c m \<Rightarrow> length c | Dir sz m \<Rightarrow> sz)"

definition IsNotExist :: "errno \<Rightarrow> bool" where
  "IsNotExist err = (err = ENOENT)"

text \<open>The permission bits \<open>0600\<close>, \<open>0666\<close> and \<open>os.ModePerm\<close> (\<open>0777\<close>).\<close>

definition mode_0600 :: nat where
  "mode_0600 = 6 * 64"

definition mode_0666 :: nat where
  "mode_0666 = 6 * 64 + 6 * 8 + 6"

definition ModePerm :: nat where
  "ModePerm = 7 * 64 + 7 * 8 + 7"

text \<open>
  The mode a new file or directory gets: the permission bits asked for, without the
  bits of the creation mask. \<open>os.Chmod\<close> sets the bits it is given; the mask plays no
  part there.
\<close>

definition creation_mode :: "env \<Rightarrow> nat \<Rightarrow> nat" where
  "creation_mode e perm = perm AND (ModePerm - (umask e AND ModePerm))"

text \<open>The directory a path lies in: the path up to its last separator.\<close>

definition parent :: "string \<Rightarrow> string" where
  "parent p =
     (let d = rev (dropWhile (\<lambda>c. c \<noteq> CHR ''/'') (rev p))
      in if d = [] then ''.'' else if d = ''/'' then ''/'' else butlast d)"

definition parent_check :: "fs \<Rightarrow> string \<Rightarrow> errno option" where
  "parent_check t p =
     (case t (parent p) of
        None \<Rightarrow> Some ENOENT
      | Some (File c m) \<Rightarrow> Some ENOTDIR
      | Some (Dir sz m) \<Rightarrow> None)"

text \<open>\<open>under d q\<close>: the path \<open>q\<close> lies strictly below the directory \<open>d\<close>.\<close>

definition under :: "string \<Rightarrow> string \<Rightarrow> bool" where
  "under d q = has_prefix (d @ ''/'') q"

subsection \<open>System calls\<close>

text \<open>
  Each call first fails with the fault the environment injects for it on that path, if
  any, and otherwise acts on the tree. A call that fails leaves the tree as it was.
\<close>

definition os_Stat :: "env \<Rightarrow> fs \<Rightarrow> string \<Rightarrow> errno + node" where
  "os_Stat e t p =
     (if p = [] then Inl ENOENT
      else case faults e SysStat p of
        Some f \<Rightarrow> Inl (Fault f)
      | None \<Rightarrow> (case t p of None \<Rightarrow> Inl ENOENT | Some n \<Rightarrow> Inr n))"

text \<open>
  \<open>os.Create\<close> truncates the file if it exists and creates it with mode 0666, less
  the creation mask, if not.
\<close>

definition os_Create :: "env \<Rightarrow> fs \<Rightarrow> string \<Rightarrow> errno + fs" where
  "os_Create e t p =
     (if p = [] then Inl ENOENT
      else case faults e SysCreate p of
        Some f \<Rightarrow> Inl (Fault f)
      | None \<Rightarrow>
          (case t p of
             Some (Dir sz m) \<Rightarrow> Inl EISDIR
           | Some (File c m) \<Rightarrow> Inr (t(p \<mapsto> File [] m))
           | None \<Rightarrow>
               (case parent_check t p of
                  Some err \<Rightarrow> Inl err
                | None \<Rightarrow> Inr (t(p \<mapsto> File [] (creation_mode e mode_0666))))))"

definition os_Mkdir :: "env \<Rightarrow> fs \<Rightarrow> string \<Rightarrow> nat \<Rightarrow> errno + fs" where
  "os_Mkdir e t p perm =
     (if p = [] then Inl ENOENT
      else case faults e SysMkdir p of
        Some f \<Rightarrow> Inl (Fault f)
      | None \<Rightarrow>
          (case t p of
             Some n \<Rightarrow> Inl EEXIST
           | None \<Rightarrow>
               (case parent_check t p of
                  Some err \<Rightarrow> Inl err
                | None \<Rightarrow> Inr (t(p \<mapsto> Dir 4096 (creation_mode e perm))))))"

definition os_Chmod :: "env \<Rightarrow> fs \<Rightarrow> string \<Rightarrow> nat \<Rightarrow> errno + fs" where
  "os_Chmod e t p perm =
     (if p = [] then Inl ENOENT
      else case faults e SysChmod p of
        Some f \<Rightarrow> Inl (Fault f)
      | None \<Rightarrow>
          (case t p of
             None \<Rightarrow> Inl ENOENT
           | Some (File c m) \<Rightarrow> Inr (t(p \<mapsto> File c perm))
           | Some (Dir sz m) \<Rightarrow> Inr (t(p \<mapsto> Dir sz perm))))"

text \<open>
  \<open>ioutil.WriteFile\<close> replaces the content of an existing file, keeping its mode, and
  creates a missing file with the given mode, less the creation mask.
\<close>

definition ioutil_WriteFile :: "env \<Rightarrow> fs \<Rightarrow> string \<Rightarrow> string \<Rightarrow> nat \<Rightarrow> errno + fs" where
  "ioutil_WriteFile e t p data perm =
     (if p = [] then Inl ENOENT
      else case faults e SysWrite p of
        Some f \<Rightarrow> Inl (Fault f)
      | None \<Rightarrow>
          (case t p of
             Some (Dir sz m) \<Rightarrow> Inl EISDIR
           | Some (File c m) \<Rightarrow> Inr (t(p \<mapsto> File data m))
           | None \<Rightarrow>
               (case parent_check t p of
                  Some err \<Rightarrow> Inl err
                | None \<Rightarrow> Inr (t(p \<mapsto> File data (creation_mode e perm))))))"

text \<open>\<open>os.RemoveAll\<close> removes the path and everything below it; a missing path is no error.\<close>

definition os_RemoveAll :: "env \<Rightarrow> fs \<Rightarrow> string \<Rightarrow> errno + fs" where
  "os_RemoveAll e t p =
     (case faults e SysRemoveAll p of
        Some f \<Rightarrow> Inl (Fault f)
      | None \<Rightarrow> Inr (\<lambda>q. if q = p \<or> under p q then None else t q))"

text \<open>
  Modelled from the spec: \<open>Copy\<close>, the recursive copy that \<open>migrateOldConfig\<close> calls, is
  defined in a file of the package that is not among the sources. The spec, section 4.5:
  "Recursively copy every file and subdirectory from Legacy Root to Configuration Root,
  preserving relative structure. Copy must not partially create the destination if the
  source tree cannot be fully read". A copy that fails returns an error and leaves the
  tree as it was; one that succeeds puts the source node at the destination and every
  node below the source at the same relative path below the destination.
\<close>

definition Copy :: "env \<Rightarrow> fs \<Rightarrow> string \<Rightarrow> string \<Rightarrow> errno + fs" where
  "Copy e t src dest =
     (case faults e SysCopy src of
        Some f \<Rightarrow> Inl (Fault f)
      | None \<Rightarrow>
          (case t src of
             None \<Rightarrow> Inl ENOENT
           | Some n \<Rightarrow>
               Inr (\<lambda>q. if q = dest then Some n
                        else if under dest q then
                          (case t (src @ drop (length dest) q) of
                             Some m \<Rightarrow> Some m
                           | None \<Rightarrow> t q)
                        else t q)))"

section \<open>Provisioning, permissions, migration and bootstrap\<close>

text \<open>
  A function of the package that returns nothing either returns, or ends the process
  with \<open>os.Exit(1)\<close>, or panics. Each outcome carries the file tree at that moment.
  The diagnostics printed before an exit are not part of the model.
\<close>

datatype outcome =
    is_Returned: Returned (tree_of: fs)
  | is_Exited: Exited (tree_of: fs)
  | is_Panicked: Panicked (tree_of: fs)

definition and_then :: "outcome \<Rightarrow> (fs \<Rightarrow> outcome) \<Rightarrow> outcome" where
  "and_then r f = (case r of Returned t \<Rightarrow> f t | Exited t \<Rightarrow> Exited t | Panicked t \<Rightarrow> Panicked t)"

text \<open>
  The two tests the source makes on the result of \<open>os.Stat\<close>: \<open>err == nil\<close>, and
  \<open>os.IsNotExist(err)\<close> (false when \<open>err\<close> is nil).
\<close>

definition stat_ok :: "env \<Rightarrow> fs \<Rightarrow> string \<Rightarrow> bool" where
  "stat_ok e t p = (case os_Stat e t p of Inl err \<Rightarrow> False | Inr info \<Rightarrow> True)"

definition stat_not_exist :: "env \<Rightarrow> fs \<Rightarrow> string \<Rightarrow> bool" where
  "stat_not_exist e t p = (case os_Stat e t p of Inl err \<Rightarrow> IsNotExist err | Inr info \<Rightarrow> False)"

text \<open>
  \<open>CreateFile\<close> returns the path or the error, and the tree it leaves behind. The file
  handle \<open>os.Create\<close> returns is dropped by the source.
\<close>

definition CreateFile :: "env \<Rightarrow> fs \<Rightarrow> string \<Rightarrow> (error + string) \<times> fs" where
  "CreateFile e t fileName =
     (case WtfConfigDir e of
        Inl err \<Rightarrow> (Inl err, t)
      | Inr configDir \<Rightarrow>
          (let filePath = configDir @ ''/'' @ fileName
           in case os_Stat e t filePath of
                Inr info \<Rightarrow> (Inr filePath, t)
              | Inl err \<Rightarrow>
                  if IsNotExist err then
                    (case os_Create e t filePath of
                       Inl err' \<Rightarrow> (Inl (OsError err'), t)
                     | Inr t' \<Rightarrow> (Inr filePath, t'))
                  else (Inl (OsError err), t)))"

definition chmodConfigFile :: "env \<Rightarrow> fs \<Rightarrow> outcome" where
  "chmodConfigFile e t =
     (let relPath = WtfConfigDirV2 @ WtfConfigFile;
          absPath = path_or_empty (expandHomeDir e relPath)
      in if stat_not_exist e t absPath then Returned t
         else (case os_Chmod e t absPath mode_0600 of
                 Inl err \<Rightarrow> Returned t
               | Inr t' \<Rightarrow> Returned t'))"

definition chmodSecretsFile :: "env \<Rightarrow> fs \<Rightarrow> outcome" where
  "chmodSecretsFile e t =
     (let relPath = WtfConfigDirV2 @ WtfSecretsFile;
          absPath = path_or_empty (expandHomeDir e relPath)
      in if stat_not_exist e t absPath then Returned t
         else (case os_Chmod e t absPath mode_0600 of
                 Inl err \<Rightarrow> Returned t
               | Inr t' \<Rightarrow> Returned t'))"

definition createXdgConfigDir :: "env \<Rightarrow> fs \<Rightarrow> outcome" where
  "createXdgConfigDir e t =
     (let xdgConfigDir = path_or_empty (expandHomeDir e XdgConfigDir)
      in if stat_not_exist e t xdgConfigDir then
           (case os_Mkdir e t xdgConfigDir ModePerm of
              Inl err \<Rightarrow> Exited t
            | Inr t' \<Rightarrow> Returned t')
         else Returned t)"

definition createWtfConfigDir :: "env \<Rightarrow> fs \<Rightarrow> outcome" where
  "createWtfConfigDir e t =
     (let wtfConfigDir = path_or_empty (WtfConfigDir e)
      in if stat_not_exist e t wtfConfigDir then
           (case os_Mkdir e t wtfConfigDir ModePerm of
              Inl err \<Rightarrow> Exited t
            | Inr t' \<Rightarrow> Returned t')
         else Returned t)"

text \<open>
  The template \<open>defaultConfigFile\<close> is a constant of the package defined outside the
  sources; it is a parameter. The second \<open>os.Stat\<close> drops its error: were it to fail,
  \<open>file\<close> would be nil and \<open>file.Size()\<close> would panic.
\<close>

definition createWtfConfigFile :: "env \<Rightarrow> string \<Rightarrow> fs \<Rightarrow> outcome" where
  "createWtfConfigFile e defaultConfigFile t =
     (case CreateFile e t WtfConfigFile of
        (Inl err, t1) \<Rightarrow> Exited t1
      | (Inr filePath, t1) \<Rightarrow>
          (case os_Stat e t1 filePath of
             Inl err \<Rightarrow> Panicked t1
           | Inr file \<Rightarrow>
               if Size file = 0 then
                 (case ioutil_WriteFile e t1 filePath defaultConfigFile mode_0600 of
                    Inl err \<Rightarrow> Exited t1
                  | Inr t2 \<Rightarrow> Returned t2)
               else Returned t1))"

text \<open>Likewise \<open>defaultSecretsFile\<close> is a parameter.\<close>

definition createWtfSecretsFile :: "env \<Rightarrow> string \<Rightarrow> fs \<Rightarrow> outcome" where
  "createWtfSecretsFile e defaultSecretsFile t =
     (case CreateFile e t WtfSecretsFile of
        (Inl err, t1) \<Rightarrow> Exited t1
      | (Inr filePath, t1) \<Rightarrow>
          (case os_Stat e t1 filePath of
             Inl err \<Rightarrow> Panicked t1
           | Inr file \<Rightarrow>
               if Size file = 0 then
                 (case ioutil_WriteFile e t1 filePath defaultSecretsFile mode_0600 of
                    Inl err \<Rightarrow> Exited t1
                  | Inr t2 \<Rightarrow> Returned t2)
               else Returned t1))"

definition migrateOldConfig :: "env \<Rightarrow> fs \<Rightarrow> outcome" where
  "migrateOldConfig e t =
     (let srcDir = path_or_empty (expandHomeDir e WtfConfigDirV1);
          destDir = path_or_empty (expandHomeDir e WtfConfigDirV2)
      in if stat_not_exist e t srcDir then Returned t
         else if stat_ok e t destDir then Returned t
         else (case Copy e t srcDir destDir of
                 Inl err \<Rightarrow> Panicked t
               | Inr t1 \<Rightarrow>
                   if stat_ok e t1 destDir then
                     (case os_RemoveAll e t1 srcDir of
                        Inl err \<Rightarrow> Returned t1
                      | Inr t2 \<Rightarrow> Returned t2)
                   else Returned t1))"

definition Initialize :: "env \<Rightarrow> string \<Rightarrow> bool \<Rightarrow> fs \<Rightarrow> outcome" where
  "Initialize e defaultConfigFile hasCustom t =
     and_then (if hasCustom = False then migrateOldConfig e t else Returned t) (\<lambda>t1.
     and_then (createXdgConfigDir e t1) (\<lambda>t2.
     and_then (createWtfConfigDir e t2) (\<lambda>t3.
       if hasCustom = False then
         and_then (createWtfConfigFile e defaultConfigFile t3) (\<lambda>t4.
         and_then (chmodConfigFile e t4) (\<lambda>t5.
           chmodSecretsFile e t5))
       else Returned t3)))"

subsection \<open>The absolute paths the package works on\<close>

text \<open>
  The expressions the source hands to the operating system: the legacy directory and the
  new directory of \<open>migrateOldConfig\<close>, and the two files of \<open>chmodConfigFile\<close> and
  \<open>chmodSecretsFile\<close>.
\<close>

definition legacyDir :: "env \<Rightarrow> string" where
  "legacyDir e = path_or_empty (expandHomeDir e WtfConfigDirV1)"

definition configDir :: "env \<Rightarrow> string" where
  "configDir e = path_or_empty (expandHomeDir e WtfConfigDirV2)"

definition configFilePath :: "env \<Rightarrow> string" where
  "configFilePath e = path_or_empty (expandHomeDir e (WtfConfigDirV2 @ WtfConfigFile))"

definition secretsFilePath :: "env \<Rightarrow> string" where
  "secretsFilePath e = path_or_empty (expandHomeDir e (WtfConfigDirV2 @ WtfSecretsFile))"

text \<open>
  What \<open>filepath.Clean\<close> writes in front of the last kept element: the root separator
  of a rooted path, and the earlier elements, each followed by a separator.
\<close>

definition lead :: "bool \<Rightarrow> string list \<Rightarrow> string" where
  "lead rooted st =
     (if rooted then ''/'' else []) @ (if st = [] then [] else join_sep (rev st) @ ''/'')"

section \<open>Concrete environments and file trees\<close>

text \<open>
  The environments below have the usual creation mask 022 (the number 18): a new
  file asked for with mode 0666 gets 0644 (420), a new directory asked for with 0777
  gets 0755 (493).
\<close>

definition no_faults :: "syscall \<Rightarrow> string \<Rightarrow> fault option" where
  "no_faults c p = None"

definition env_alice :: env where
  "env_alice = \<lparr>user_current = Some ''/home/alice'', faults = no_faults, umask = 18\<rparr>"

text \<open>A user record whose home directory is written with a trailing separator.\<close>

definition env_alice_slash :: env where
  "env_alice_slash = \<lparr>user_current = Some ''/home/alice/'', faults = no_faults, umask = 18\<rparr>"

text \<open>A home directory and nothing below it (directories with mode 0755).\<close>

definition tree_home :: fs where
  "tree_home =
     [''/'' \<mapsto> Dir 4096 493, ''/home'' \<mapsto> Dir 4096 493, ''/home/alice'' \<mapsto> Dir 4096 493]"

text \<open>The same with a configuration directory that holds a configuration file.\<close>

definition tree_configured :: fs where
  "tree_configured =
     tree_home(''/home/alice/.config'' \<mapsto> Dir 4096 493,
       ''/home/alice/.config/wtf'' \<mapsto> Dir 4096 493,
       ''/home/alice/.config/wtf/config.yml'' \<mapsto> File ''a: 1'' 420)"

text \<open>An environment in which every mode change fails, as on a volume without modes.\<close>

definition chmod_unsupported :: "syscall \<Rightarrow> string \<Rightarrow> fault option" where
  "chmod_unsupported c p = (if c = SysChmod then Some ENOTSUP else None)"

definition env_container :: env where
  "env_container = \<lparr>user_current = Some ''/home/alice'', faults = chmod_unsupported, umask = 18\<rparr>"

text \<open>An environment in which no tree can be removed.\<close>

definition remove_denied :: "syscall \<Rightarrow> string \<Rightarrow> fault option" where
  "remove_denied c p = (if c = SysRemoveAll then Some EACCES else None)"

definition env_stuck :: env where
  "env_stuck = \<lparr>user_current = Some ''/home/alice'', faults = remove_denied, umask = 18\<rparr>"

text \<open>A home directory with a legacy configuration and no new one.\<close>

definition tree_legacy :: fs where
  "tree_legacy =
     tree_home(''/home/alice/.wtf'' \<mapsto> Dir 4096 493,
       ''/home/alice/.wtf/config.yml'' \<mapsto> File ''a: 1'' 420)"

text \<open>A home directory with both the legacy configuration and the new one.\<close>

definition tree_both :: fs where
  "tree_both =
     tree_configured(''/home/alice/.wtf'' \<mapsto> Dir 4096 493,
       ''/home/alice/.wtf/config.yml'' \<mapsto> File ''b: 2'' 420)"

section \<open>Properties of the path resolver\<close>

lemmas path_defs = expandHomeDir_def home_def filepath_Join_def filepath_Clean_def
  is_rooted_def render_def clean_step_def split_sep_def

lemma split_acc_append: "split_acc cur (a @ CHR ''/'' # b) = split_acc cur a @ split_acc [] b"
  by (induction a arbitrary: cur) auto

lemma split_sep_append: "split_sep (a @ CHR ''/'' # b) = split_sep a @ split_sep b"
  by (simp add: split_sep_def split_acc_append)

lemma is_rooted_append: "a \<noteq> [] \<Longrightarrow> is_rooted (a @ b) = is_rooted a"
  by (cases a) (auto simp: is_rooted_def)

lemma Clean_trailing_sep: "h \<noteq> [] \<Longrightarrow> filepath_Clean (h @ ''/'') = filepath_Clean h"
  by (simp add: filepath_Clean_def split_sep_append is_rooted_append)
    (simp add: split_sep_def clean_step_def)

text \<open>
  Claim C5, as stated: resolving \<open>~/.config/wtf/\<close> with home directory \<open>/home/alice\<close>
  yields \<open>/home/alice/.config/wtf/\<close>, the trailing separator preserved. It does not:
  \<open>expandHomeDir\<close> returns what \<open>filepath.Join\<close> returns, a cleaned path.
\<close>

theorem expandHomeDir_scenario_not_trailing:
  "expandHomeDir env_alice ''~/.config/wtf/'' \<noteq> Inr ''/home/alice/.config/wtf/''"
  by (simp add: path_defs env_alice_def)

text \<open>
  Claim C5, amended: resolving \<open>~/.config/wtf/\<close> with home directory \<open>/home/alice\<close>
  yields \<open>/home/alice/.config/wtf\<close>, without the trailing separator, whatever system
  calls fail and whatever the creation mask.
\<close>

theorem expandHomeDir_scenario:
  "expandHomeDir \<lparr>user_current = Some ''/home/alice'', faults = f, umask = u\<rparr>
       ''~/.config/wtf/''
     = Inr ''/home/alice/.config/wtf''"
  by (simp add: path_defs)

text \<open>
  Claim C6: a raw path that does not begin with \<open>~\<close>, the empty path included, is
  returned unchanged and without error, whatever the environment.
\<close>

theorem expandHomeDir_identity:
  "\<not> has_prefix ''~'' path \<Longrightarrow> expandHomeDir e path = Inr path"
  by (cases path) (auto simp: expandHomeDir_def)

theorem expandHomeDir_identity_witness:
  "\<not> has_prefix ''~'' ''/etc/wtf'' \<and> expandHomeDir env_alice ''/etc/wtf'' = Inr ''/etc/wtf''
   \<and> \<not> has_prefix ''~'' [] \<and> expandHomeDir env_alice [] = Inr []"
  using expandHomeDir_identity [of "''/etc/wtf''" env_alice]
    expandHomeDir_identity [of "[]" env_alice]
  by simp

text \<open>
  Claim C7, as stated: a raw path that begins with \<open>~\<close> followed by a character that
  is not a path separator fails with InvalidPathFormat. The path separator of the
  platform modelled here is the slash; the backslash is not one, and yet the raw path
  \<open>~\<close>, backslash, \<open>foo\<close> is resolved without error, to the home directory joined with
  the element made of the backslash and \<open>foo\<close>.
\<close>

theorem expandHomeDir_backslash_accepted:
  "CHR 0x5C \<noteq> CHR ''/''
   \<and> split_sep (CHR 0x5C # ''foo/bar'') = [CHR 0x5C # ''foo'', ''bar'']
   \<and> expandHomeDir env_alice (CHR ''~'' # CHR 0x5C # ''foo'')
       = Inr (''/home/alice/'' @ CHR 0x5C # ''foo'')"
  by (simp add: path_defs env_alice_def)

text \<open>
  Claim C7, amended: a raw path that begins with \<open>~\<close> followed by a character that is
  neither a slash nor a backslash fails with the error "cannot expand user-specific
  home dir" (the spec's InvalidPathFormat), whatever the environment; the home directory
  is not looked up. The source lets both characters through on every platform.
\<close>

theorem expandHomeDir_invalid_format:
  "path = CHR ''~'' # c # rest \<Longrightarrow> c \<noteq> CHR ''/'' \<Longrightarrow> c \<noteq> CHR 0x5C \<Longrightarrow>
     expandHomeDir e path = Inl CannotExpandHomeDir"
  by (simp add: expandHomeDir_def)

theorem expandHomeDir_invalid_format_witness:
  "expandHomeDir env_alice ''~bob/x'' = Inl CannotExpandHomeDir"
  using expandHomeDir_invalid_format [of "''~bob/x''" "CHR ''b''" "''ob/x''" env_alice]
  by simp

text \<open>
  Claim C10, as stated: for the raw path \<open>~\<close> the resolver returns the home directory
  itself whenever the lookup reports a non-empty one. With the home directory
  \<open>/home/alice/\<close> it returns \<open>/home/alice\<close>.
\<close>

theorem expandHomeDir_tilde_not_verbatim:
  "user_current env_alice_slash = Some ''/home/alice/'' \<and>
   expandHomeDir env_alice_slash ''~'' \<noteq> Inr ''/home/alice/''"
  by (simp add: path_defs env_alice_slash_def)

text \<open>
  Claim C10, amended: for the raw path \<open>~\<close> the resolver does not fail when the lookup
  reports a non-empty home directory; it returns that directory in the form
  \<open>filepath.Clean\<close> gives it, which is the home directory itself when it is written
  in that form already.
\<close>

theorem expandHomeDir_tilde:
  "user_current e = Some h \<Longrightarrow> h \<noteq> [] \<Longrightarrow> expandHomeDir e ''~'' = Inr (filepath_Clean h)"
  using Clean_trailing_sep [of h]
  by (simp add: expandHomeDir_def home_def filepath_Join_def)

theorem expandHomeDir_tilde_witness:
  "expandHomeDir env_alice ''~'' = Inr ''/home/alice''
   \<and> expandHomeDir env_alice_slash ''~'' = Inr ''/home/alice''"
  using expandHomeDir_tilde [of env_alice "''/home/alice''"]
    expandHomeDir_tilde [of env_alice_slash "''/home/alice/''"]
  by (simp add: env_alice_def env_alice_slash_def filepath_Clean_def is_rooted_def render_def
      clean_step_def split_sep_def)

section \<open>Properties of the firewall probe\<close>

text \<open>
  Claim C9, as stated: on every platform without a stealth mode the query returns a
  "not applicable" label, never an empty result. On FreeBSD, which the switch does not
  name, the result is the empty string.
\<close>

theorem FirewallStealthState_freebsd_empty:
  "FirewallStealthState ''freebsd'' [] = []"
  by (simp add: FirewallStealthState_def)

text \<open>
  Claim C9, amended: on Linux and on Windows the stealth-mode query returns the label
  \<open>[white]N/A[white]\<close>; on a platform the switch does not name (neither of these nor
  macOS) it returns the empty string.
\<close>

theorem FirewallStealthState_not_applicable:
  "(goos = ''linux'' \<or> goos = ''windows'' \<longrightarrow>
      FirewallStealthState goos out = ''[white]N/A[white]'')
   \<and> (goos \<noteq> ''linux'' \<and> goos \<noteq> ''darwin'' \<and> goos \<noteq> ''windows'' \<longrightarrow>
      FirewallStealthState goos out = [])"
  by (simp add: FirewallStealthState_def firewallStealthStateLinux_def
      firewallStealthStateWindows_def)

theorem FirewallStealthState_not_applicable_witness:
  "FirewallStealthState ''linux'' ''enabled'' = ''[white]N/A[white]''
   \<and> FirewallStealthState ''windows'' [] = ''[white]N/A[white]''
   \<and> FirewallStealthState ''openbsd'' [] = []"
  using FirewallStealthState_not_applicable [of "''linux''" "''enabled''"]
    FirewallStealthState_not_applicable [of "''windows''" "[]"]
    FirewallStealthState_not_applicable [of "''openbsd''" "[]"]
  by simp

section \<open>Properties of the file provisioner\<close>

lemma os_Stat_ENOENT:
  "os_Stat e t p = Inl ENOENT \<Longrightarrow> p = [] \<or> (faults e SysStat p = None \<and> t p = None)"
  by (auto simp: os_Stat_def split: if_splits option.splits)

lemma os_Create_new:
  "t p = None \<Longrightarrow> os_Create e t p = Inr t' \<Longrightarrow>
     t' = t(p \<mapsto> File [] (creation_mode e mode_0666)) \<and> p \<noteq> []"
  by (auto simp: os_Create_def split: if_splits option.splits)

lemma CreateFile_twice:
  "CreateFile e (snd (CreateFile e t name)) name = CreateFile e t name"
proof (cases "WtfConfigDir e")
  case (Inl err)
  then show ?thesis by (simp add: CreateFile_def)
next
  case (Inr configDir)
  note dir = this
  let ?p = "configDir @ ''/'' @ name"
  show ?thesis
  proof (cases "os_Stat e t ?p")
    case (Inr info)
    with dir show ?thesis by (simp add: CreateFile_def Let_def)
  next
    case (Inl err)
    note st = this
    show ?thesis
    proof (cases "err = ENOENT")
      case False
      with st dir show ?thesis
        by (simp add: CreateFile_def IsNotExist_def Let_def)
    next
      case True
      with st os_Stat_ENOENT [of e t ?p]
      have nf: "faults e SysStat ?p = None" and none: "t ?p = None"
        by auto
      show ?thesis
      proof (cases "os_Create e t ?p")
        case (Inl err')
        with st True dir show ?thesis
          by (simp add: CreateFile_def IsNotExist_def Let_def)
      next
        case (Inr t')
        with none os_Create_new [of t ?p e t']
        have t': "t' = t(?p \<mapsto> File [] (creation_mode e mode_0666))"
          by simp
        have "os_Stat e t' ?p = Inr (File [] (creation_mode e mode_0666))"
          using nf t' by (simp add: os_Stat_def)
        with st True Inr dir show ?thesis
          by (simp add: CreateFile_def IsNotExist_def Let_def)
      qed
    qed
  qed
qed

lemma CreateFile_keeps:
  assumes tp: "t p = Some n"
  shows "snd (CreateFile e t name) p = Some n"
proof (cases "WtfConfigDir e")
  case (Inl err)
  with tp show ?thesis by (simp add: CreateFile_def)
next
  case (Inr configDir)
  note dir = this
  let ?p = "configDir @ ''/'' @ name"
  show ?thesis
  proof (cases "os_Stat e t ?p = Inl ENOENT")
    case False
    with dir tp show ?thesis
      by (auto simp: CreateFile_def IsNotExist_def Let_def split: sum.splits)
  next
    case True
    with os_Stat_ENOENT [of e t ?p] have none: "t ?p = None" by auto
    with tp have ne: "p \<noteq> ?p" by auto
    show ?thesis
    proof (cases "os_Create e t ?p")
      case (Inl err')
      with True dir tp show ?thesis by (simp add: CreateFile_def IsNotExist_def Let_def)
    next
      case (Inr t')
      with none os_Create_new [of t ?p e t']
      have "t' = t(?p \<mapsto> File [] (creation_mode e mode_0666))" by simp
      with True Inr dir tp ne show ?thesis
        by (simp add: CreateFile_def IsNotExist_def Let_def)
    qed
  qed
qed

text \<open>
  Claim C4: \<open>CreateFile\<close> is idempotent. For every file name, environment and file tree,
  a second call right after the first returns what the first returned (the same path,
  or the same error) and leaves the tree as the first call left it; and a call changes
  no node that exists already, so no existing file is truncated or modified.
\<close>

theorem CreateFile_idempotent:
  "CreateFile e (snd (CreateFile e t name)) name = CreateFile e t name
   \<and> (\<forall>p n. t p = Some n \<longrightarrow> snd (CreateFile e t name) p = Some n)"
  using CreateFile_twice CreateFile_keeps by blast

lemmas const_defs = WtfConfigDirV1_def WtfConfigDirV2_def WtfConfigFile_def WtfSecretsFile_def
  XdgConfigDir_def WtfConfigDir_def path_or_empty_def

lemma alice_paths:
  "legacyDir env_alice = ''/home/alice/.wtf''"
  "configDir env_alice = ''/home/alice/.config/wtf''"
  "configFilePath env_alice = ''/home/alice/.config/wtf/config.yml''"
  "secretsFilePath env_alice = ''/home/alice/.config/wtf/secrets.yml''"
  by (simp_all add: legacyDir_def configDir_def configFilePath_def secretsFilePath_def
      const_defs path_defs env_alice_def)

theorem CreateFile_idempotent_witness:
  "tree_configured ''/home/alice/.config/wtf/config.yml'' = Some (File ''a: 1'' 420)
   \<and> CreateFile env_alice tree_configured ''config.yml'' = (Inr ''/home/alice/.config/wtf/config.yml'', tree_configured)
   \<and> CreateFile env_alice (snd (CreateFile env_alice tree_configured ''config.yml'')) ''config.yml''
       = (Inr ''/home/alice/.config/wtf/config.yml'', tree_configured)
   \<and> snd (CreateFile env_alice tree_configured ''config.yml'') ''/home/alice/.config/wtf/config.yml''
       = Some (File ''a: 1'' 420)"
proof -
  have a: "tree_configured ''/home/alice/.config/wtf/config.yml'' = Some (File ''a: 1'' 420)"
    by (simp add: tree_configured_def)
  have b: "CreateFile env_alice tree_configured ''config.yml'' = (Inr ''/home/alice/.config/wtf/config.yml'', tree_configured)"
    by (simp add: CreateFile_def const_defs path_defs env_alice_def os_Stat_def no_faults_def tree_configured_def Let_def)
  from CreateFile_idempotent [of env_alice tree_configured "''config.yml''"] a b
  show ?thesis by simp
qed

section \<open>Properties of the permission enforcer\<close>

lemma os_Chmod_absent: "t p = None \<Longrightarrow> \<exists>err. os_Chmod e t p m = Inl err"
  by (auto simp: os_Chmod_def split: option.splits)

text \<open>
  Claim C8: the permission enforcer always returns, for the configuration file and for
  the secrets file: it never exits and never panics. Applied to a file that does not
  exist it returns with the tree unchanged, so the file is not created; and when the
  mode change fails, for whatever reason, it returns with the tree unchanged as well.
\<close>

theorem chmod_best_effort:
  "(\<exists>t'. chmodConfigFile e t = Returned t') \<and> (\<exists>t'. chmodSecretsFile e t = Returned t')
   \<and> (t (configFilePath e) = None \<longrightarrow> chmodConfigFile e t = Returned t)
   \<and> (t (secretsFilePath e) = None \<longrightarrow> chmodSecretsFile e t = Returned t)
   \<and> (os_Chmod e t (configFilePath e) mode_0600 = Inl err \<longrightarrow> chmodConfigFile e t = Returned t)
   \<and> (os_Chmod e t (secretsFilePath e) mode_0600 = Inl err \<longrightarrow> chmodSecretsFile e t = Returned t)"
proof -
  have 1: "\<exists>t'. chmodConfigFile e t = Returned t'"
    by (simp add: chmodConfigFile_def Let_def split: sum.splits)
  have 2: "\<exists>t'. chmodSecretsFile e t = Returned t'"
    by (simp add: chmodSecretsFile_def Let_def split: sum.splits)
  have 3: "chmodConfigFile e t = Returned t" if "os_Chmod e t (configFilePath e) mode_0600 = Inl x" for x
    using that by (simp add: chmodConfigFile_def configFilePath_def Let_def)
  have 4: "chmodSecretsFile e t = Returned t" if "os_Chmod e t (secretsFilePath e) mode_0600 = Inl x" for x
    using that by (simp add: chmodSecretsFile_def secretsFilePath_def Let_def)
  have 5: "chmodConfigFile e t = Returned t" if "t (configFilePath e) = None"
    using that os_Chmod_absent [of t "configFilePath e" e mode_0600] 3 by blast
  have 6: "chmodSecretsFile e t = Returned t" if "t (secretsFilePath e) = None"
    using that os_Chmod_absent [of t "secretsFilePath e" e mode_0600] 4 by blast
  from 1 2 3 4 5 6 show ?thesis by blast
qed

theorem chmod_best_effort_witness:
  "tree_home (configFilePath env_alice) = None \<and> chmodConfigFile env_alice tree_home = Returned tree_home
   \<and> tree_home (secretsFilePath env_alice) = None \<and> chmodSecretsFile env_alice tree_home = Returned tree_home
   \<and> os_Chmod env_container tree_configured (configFilePath env_container) mode_0600 = Inl (Fault ENOTSUP)
   \<and> chmodConfigFile env_container tree_configured = Returned tree_configured"
proof -
  have a: "tree_home (configFilePath env_alice) = None"
    by (simp add: configFilePath_def const_defs path_defs env_alice_def tree_home_def)
  have b: "tree_home (secretsFilePath env_alice) = None"
    by (simp add: secretsFilePath_def const_defs path_defs env_alice_def tree_home_def)
  have c: "os_Chmod env_container tree_configured (configFilePath env_container) mode_0600 = Inl (Fault ENOTSUP)"
    by (simp add: configFilePath_def const_defs path_defs env_container_def os_Chmod_def chmod_unsupported_def)
  from chmod_best_effort [of env_alice tree_home] chmod_best_effort [of env_container tree_configured "Fault ENOTSUP"] a b c
  show ?thesis by simp
qed

section \<open>Properties of the legacy migrator\<close>

text \<open>
  Claim C3: when both the legacy directory and the new configuration directory exist
  (\<open>os.Stat\<close> succeeds on each), the migration returns with the file tree exactly as
  it was: nothing is copied and nothing is deleted.
\<close>

theorem migrateOldConfig_skips:
  "stat_ok e t (legacyDir e) \<Longrightarrow> stat_ok e t (configDir e) \<Longrightarrow> migrateOldConfig e t = Returned t"
  by (simp add: migrateOldConfig_def legacyDir_def configDir_def Let_def)


theorem migrateOldConfig_skips_witness:
  "stat_ok env_alice tree_both (legacyDir env_alice)
   \<and> stat_ok env_alice tree_both (configDir env_alice)
   \<and> migrateOldConfig env_alice tree_both = Returned tree_both"
proof -
  have f: "faults env_alice = no_faults" by (simp add: env_alice_def)
  have a: "stat_ok env_alice tree_both (legacyDir env_alice)"
    by (simp add: alice_paths stat_ok_def os_Stat_def f no_faults_def tree_both_def)
  have b: "stat_ok env_alice tree_both (configDir env_alice)"
    by (simp add: alice_paths stat_ok_def os_Stat_def f no_faults_def tree_both_def
        tree_configured_def)
  from migrateOldConfig_skips [OF a b] a b show ?thesis by simp
qed

lemma join_sep_snoc: "join_sep (xs @ [a]) = (if xs = [] then a else join_sep xs @ CHR ''/'' # a)"
  by (induction xs rule: join_sep.induct) auto

lemma join_sep_append:
  "xs \<noteq> [] \<Longrightarrow> ys \<noteq> [] \<Longrightarrow> join_sep (xs @ ys) = join_sep xs @ CHR ''/'' # join_sep ys"
  by (induction xs rule: join_sep.induct) (auto simp: neq_Nil_conv)

lemma render_push: "a \<noteq> [] \<Longrightarrow> render r (a # st) = lead r st @ a"
  by (simp add: render_def lead_def join_sep_snoc)

lemma Clean_extend:
  "h \<noteq> [] \<Longrightarrow> filepath_Clean (h @ CHR ''/'' # b) =
     render (is_rooted h)
       (foldl (clean_step (is_rooted h)) (foldl (clean_step (is_rooted h)) [] (split_sep h)) (split_sep b))"
  by (simp add: filepath_Clean_def split_sep_append is_rooted_append)

lemma expand_known:
  assumes "user_current e = Some h" "h \<noteq> []"
  defines "st \<equiv> foldl (clean_step (is_rooted h)) [] (split_sep h)"
  defines "P \<equiv> lead (is_rooted h) st"
  shows "legacyDir e = P @ ''.wtf''"
    and "configDir e = P @ ''.config/wtf''"
    and "configFilePath e = P @ ''.config/wtf/config.yml''"
    and "secretsFilePath e = P @ ''.config/wtf/secrets.yml''"
    and "path_or_empty (expandHomeDir e XdgConfigDir) = P @ ''.config''"
proof -
  have hm: "home e = Inr h" using assms by (simp add: home_def)
  have s1: "split_sep ''/.wtf/'' = [[], ''.wtf'', []]" by (simp add: split_sep_def)
  have s2: "split_sep ''/.config/wtf/'' = [[], ''.config'', ''wtf'', []]" by (simp add: split_sep_def)
  have s3: "split_sep ''/.config/wtf/config.yml'' = [[], ''.config'', ''wtf'', ''config.yml'']" by (simp add: split_sep_def)
  have s4: "split_sep ''/.config/wtf/secrets.yml'' = [[], ''.config'', ''wtf'', ''secrets.yml'']" by (simp add: split_sep_def)
  have s5: "split_sep ''/.config/'' = [[], ''.config'', []]" by (simp add: split_sep_def)
  have r2: "render r (b # a # s) = lead r s @ a @ CHR ''/'' # b" if "a \<noteq> []" "b \<noteq> []" for r a b s
    using that by (simp add: render_def lead_def join_sep_append)
  have r3: "render r (c # b # a # s) = lead r s @ a @ CHR ''/'' # b @ CHR ''/'' # c" if "a \<noteq> []" "b \<noteq> []" "c \<noteq> []" for r a b c s
    using that by (simp add: render_def lead_def join_sep_append)
  show "legacyDir e = P @ ''.wtf''"
    using assms(2) hm
    by (simp add: legacyDir_def const_defs expandHomeDir_def filepath_Join_def Clean_extend s1
        clean_step_def render_push st_def P_def)
  show "configDir e = P @ ''.config/wtf''"
    using assms(2) hm
    by (simp add: configDir_def const_defs expandHomeDir_def filepath_Join_def Clean_extend s2
        clean_step_def r2 st_def P_def)
  show "configFilePath e = P @ ''.config/wtf/config.yml''"
    using assms(2) hm
    by (simp add: configFilePath_def const_defs expandHomeDir_def filepath_Join_def Clean_extend s3
        clean_step_def r3 st_def P_def)
  show "secretsFilePath e = P @ ''.config/wtf/secrets.yml''"
    using assms(2) hm
    by (simp add: secretsFilePath_def const_defs expandHomeDir_def filepath_Join_def Clean_extend s4
        clean_step_def r3 st_def P_def)
  show "path_or_empty (expandHomeDir e XdgConfigDir) = P @ ''.config''"
    using assms(2) hm
    by (simp add: const_defs expandHomeDir_def filepath_Join_def Clean_extend s5
        clean_step_def render_push st_def P_def)
qed


lemma has_prefix_same: "has_prefix (P @ x) (P @ y) = has_prefix x y"
  by (induction P) auto

lemma has_prefix_append: "has_prefix x (x @ y)"
  by (induction x) auto

lemma legacy_found_home:
  assumes "os_Stat e t (legacyDir e) = Inr n"
  shows "\<exists>h. user_current e = Some h \<and> h \<noteq> []"
proof -
  from assms have "legacyDir e \<noteq> []" by (auto simp: os_Stat_def)
  then show ?thesis
    by (auto simp: legacyDir_def const_defs expandHomeDir_def home_def
        split: option.splits if_splits)
qed

lemma stuck_paths:
  "legacyDir env_stuck = ''/home/alice/.wtf''"
  "configDir env_stuck = ''/home/alice/.config/wtf''"
  by (simp_all add: legacyDir_def configDir_def const_defs path_defs env_stuck_def)

text \<open>
  Claim C2, as stated: from every state with a populated legacy directory and no new
  directory, the migration leaves the new directory holding every file of the legacy
  tree and the legacy directory gone. Where the removal of the legacy tree fails, the
  legacy directory is still there afterwards: the source prints the error and goes on.
\<close>

theorem migrateOldConfig_legacy_remains:
  "os_Stat env_stuck tree_legacy (legacyDir env_stuck) = Inr (Dir 4096 493)
   \<and> tree_legacy (legacyDir env_stuck @ ''/config.yml'') = Some (File ''a: 1'' 420)
   \<and> stat_not_exist env_stuck tree_legacy (configDir env_stuck)
   \<and> migrateOldConfig env_stuck tree_legacy
        = Returned (tree_of (migrateOldConfig env_stuck tree_legacy))
   \<and> tree_of (migrateOldConfig env_stuck tree_legacy) (configDir env_stuck @ ''/config.yml'')
        = Some (File ''a: 1'' 420)
   \<and> tree_of (migrateOldConfig env_stuck tree_legacy) (legacyDir env_stuck)
        = Some (Dir 4096 493)"
proof -
  have f: "faults env_stuck = remove_denied" by (simp add: env_stuck_def)
  have a: "os_Stat env_stuck tree_legacy ''/home/alice/.wtf'' = Inr (Dir 4096 493)"
    by (simp add: os_Stat_def f remove_denied_def tree_legacy_def tree_home_def)
  have b: "os_Stat env_stuck tree_legacy ''/home/alice/.config/wtf'' = Inl ENOENT"
    by (simp add: os_Stat_def f remove_denied_def tree_legacy_def tree_home_def)
  have c: "tree_legacy ''/home/alice/.wtf/config.yml'' = Some (File ''a: 1'' 420)"
    by (simp add: tree_legacy_def)
  obtain t1 where copy: "Copy env_stuck tree_legacy ''/home/alice/.wtf'' ''/home/alice/.config/wtf'' = Inr t1"
    and t1a: "t1 ''/home/alice/.config/wtf'' = Some (Dir 4096 493)"
    and t1b: "t1 ''/home/alice/.config/wtf/config.yml'' = Some (File ''a: 1'' 420)"
    and t1c: "t1 ''/home/alice/.wtf'' = Some (Dir 4096 493)"
    by (simp add: Copy_def f remove_denied_def tree_legacy_def tree_home_def under_def)
  have d: "os_Stat env_stuck t1 ''/home/alice/.config/wtf'' = Inr (Dir 4096 493)"
    using t1a by (simp add: os_Stat_def f remove_denied_def)
  have e: "os_RemoveAll env_stuck t1 ''/home/alice/.wtf'' = Inl (Fault EACCES)"
    by (simp add: os_RemoveAll_def f remove_denied_def)
  have res: "migrateOldConfig env_stuck tree_legacy = Returned t1"
    using a b copy d e
    by (simp add: migrateOldConfig_def Let_def stuck_paths [unfolded legacyDir_def configDir_def]
        stat_ok_def stat_not_exist_def IsNotExist_def)
  show ?thesis
    using a b c t1a t1b t1c by (simp add: res stuck_paths stat_not_exist_def IsNotExist_def)
qed

text \<open>
  Claim C2, amended: from every state in which the legacy directory exists and the new
  configuration directory is absent, if the copy does not fail then the migration
  returns, the new directory is a copy of the legacy directory and holds every node of
  the legacy tree at the same relative path with the same content; if the removal of
  the legacy tree succeeds, neither the legacy directory nor anything below it exists
  afterwards, and if the removal fails the legacy directory stays.
\<close>

theorem migrateOldConfig_moves:
  assumes leg: "os_Stat e t (legacyDir e) = Inr n"
    and new: "stat_not_exist e t (configDir e)"
    and cp: "faults e SysCopy (legacyDir e) = None"
  shows "is_Returned (migrateOldConfig e t)
    \<and> tree_of (migrateOldConfig e t) (configDir e) = Some n
    \<and> (\<forall>rel m. t (legacyDir e @ ''/'' @ rel) = Some m \<longrightarrow>
          tree_of (migrateOldConfig e t) (configDir e @ ''/'' @ rel) = Some m)
    \<and> (faults e SysRemoveAll (legacyDir e) = None \<longrightarrow>
          tree_of (migrateOldConfig e t) (legacyDir e) = None
          \<and> (\<forall>q. under (legacyDir e) q \<longrightarrow> tree_of (migrateOldConfig e t) q = None))
    \<and> (faults e SysRemoveAll (legacyDir e) \<noteq> None \<longrightarrow>
          tree_of (migrateOldConfig e t) (legacyDir e) = Some n)"
proof -
  from legacy_found_home [OF leg] obtain h where h: "user_current e = Some h" "h \<noteq> []"
    by blast
  define P where "P = lead (is_rooted h) (foldl (clean_step (is_rooted h)) [] (split_sep h))"
  let ?src = "P @ ''.wtf''"
  let ?dest = "P @ ''.config/wtf''"
  have src: "legacyDir e = ?src" and dest: "configDir e = ?dest"
    using expand_known(1,2) [OF h] by (simp_all add: P_def)
  have tsrc: "t ?src = Some n"
    using leg by (auto simp: src os_Stat_def split: option.splits if_splits)
  have nsrc: "\<not> stat_not_exist e t ?src"
    using leg by (simp add: src stat_not_exist_def)
  have dstat: "faults e SysStat ?dest = None" and tdest: "t ?dest = None"
    using new by (auto simp: dest stat_not_exist_def os_Stat_def IsNotExist_def
        split: option.splits if_splits)
  have ndest: "\<not> stat_ok e t ?dest"
    using dstat tdest by (simp add: stat_ok_def os_Stat_def)
  define t1 where "t1 = (\<lambda>q. if q = ?dest then Some n
                        else if under ?dest q then
                          (case t (?src @ drop (length ?dest) q) of
                             Some m \<Rightarrow> Some m
                           | None \<Rightarrow> t q)
                        else t q)"
  have copy: "Copy e t ?src ?dest = Inr t1"
    using cp tsrc by (simp add: Copy_def src t1_def)
  have ok1: "stat_ok e t1 ?dest"
    using dstat by (simp add: stat_ok_def os_Stat_def t1_def)
  have t1_dest: "t1 ?dest = Some n" by (simp add: t1_def)
  have t1_src: "t1 ?src = Some n"
    using tsrc by (simp add: t1_def under_def has_prefix_same)
  have t1_rel: "t1 (?dest @ ''/'' @ rel) = Some m" if "t (?src @ ''/'' @ rel) = Some m" for rel m
  proof -
    have "under ?dest (?dest @ ''/'' @ rel)"
      using has_prefix_append [of "?dest @ ''/''" rel] by (simp add: under_def)
    moreover have "drop (length ?dest) (?dest @ ''/'' @ rel) = ''/'' @ rel" by simp
    ultimately show ?thesis using that by (simp add: t1_def)
  qed
  show ?thesis
  proof (cases "faults e SysRemoveAll ?src")
    case (Some f)
    then have res: "migrateOldConfig e t = Returned t1"
      using nsrc ndest copy ok1
      by (simp add: migrateOldConfig_def Let_def src [unfolded legacyDir_def]
          dest [unfolded configDir_def] os_RemoveAll_def)
    show ?thesis
      using Some t1_dest t1_src t1_rel by (simp add: res src dest)
  next
    case None
    define t2 where "t2 = (\<lambda>q. if q = ?src \<or> under ?src q then None else t1 q)"
    from None have res: "migrateOldConfig e t = Returned t2"
      using nsrc ndest copy ok1
      by (simp add: migrateOldConfig_def Let_def src [unfolded legacyDir_def]
          dest [unfolded configDir_def] os_RemoveAll_def t2_def)
    have a: "t2 ?dest = Some n"
      using t1_dest by (simp add: t2_def under_def has_prefix_same)
    have b: "t2 (?dest @ ''/'' @ rel) = Some m" if "t (?src @ ''/'' @ rel) = Some m" for rel m
      using t1_rel [OF that] by (simp add: t2_def under_def has_prefix_same)
    have c: "t2 ?src = None" by (simp add: t2_def)
    have d: "t2 q = None" if "under ?src q" for q
      using that by (simp add: t2_def)
    show ?thesis
      using None a b c d by (simp add: res src dest)
  qed
qed


theorem migrateOldConfig_moves_witness:
  "os_Stat env_alice tree_legacy (legacyDir env_alice) = Inr (Dir 4096 493)
   \<and> stat_not_exist env_alice tree_legacy (configDir env_alice)
   \<and> is_Returned (migrateOldConfig env_alice tree_legacy)
   \<and> tree_of (migrateOldConfig env_alice tree_legacy) ''/home/alice/.config/wtf'' = Some (Dir 4096 493)
   \<and> tree_of (migrateOldConfig env_alice tree_legacy) ''/home/alice/.config/wtf/config.yml''
        = Some (File ''a: 1'' 420)
   \<and> tree_of (migrateOldConfig env_alice tree_legacy) ''/home/alice/.wtf'' = None
   \<and> tree_of (migrateOldConfig env_alice tree_legacy) ''/home/alice/.wtf/config.yml'' = None"
proof -
  have f: "faults env_alice = no_faults" by (simp add: env_alice_def)
  have a: "os_Stat env_alice tree_legacy (legacyDir env_alice) = Inr (Dir 4096 493)"
    by (simp add: alice_paths os_Stat_def f no_faults_def tree_legacy_def tree_home_def)
  have b: "stat_not_exist env_alice tree_legacy (configDir env_alice)"
    by (simp add: alice_paths stat_not_exist_def IsNotExist_def os_Stat_def f no_faults_def
        tree_legacy_def tree_home_def)
  have c: "faults env_alice SysCopy (legacyDir env_alice) = None"
    by (simp add: f no_faults_def)
  have d: "faults env_alice SysRemoveAll (legacyDir env_alice) = None"
    by (simp add: f no_faults_def)
  have g: "tree_legacy (legacyDir env_alice @ ''/'' @ ''config.yml'') = Some (File ''a: 1'' 420)"
    by (simp add: alice_paths tree_legacy_def)
  have u: "under (legacyDir env_alice) ''/home/alice/.wtf/config.yml''"
    by (simp add: alice_paths under_def)
  from migrateOldConfig_moves [OF a b c] d g u a b show ?thesis
    by (auto simp: alice_paths)
qed

section \<open>Properties of the bootstrap\<close>

lemma alice_xdg: "path_or_empty (expandHomeDir env_alice XdgConfigDir) = ''/home/alice/.config''"
  by (simp add: const_defs path_defs env_alice_def)

lemma alice_wtf: "WtfConfigDir env_alice = Inr ''/home/alice/.config/wtf''"
  by (simp add: const_defs path_defs env_alice_def)

lemma alice_stat: "os_Stat env_alice t p = (if p = [] then Inl ENOENT else case t p of None \<Rightarrow> Inl ENOENT | Some n \<Rightarrow> Inr n)"
  by (simp add: os_Stat_def env_alice_def no_faults_def)

lemma alice_faults: "faults env_alice c p = None"
  by (simp add: env_alice_def no_faults_def)

lemma alice_modes:
  "creation_mode env_alice mode_0666 = 420"
  "creation_mode env_alice ModePerm = 493"
  "creation_mode env_alice mode_0600 = mode_0600"
  by (simp_all add: creation_mode_def env_alice_def mode_0666_def ModePerm_def mode_0600_def)

text \<open>
  Claim C1: \<open>Initialize\<close> without a custom source provisions the default configuration
  file and the default secrets file, then restricts the mode of both. The source calls
  \<open>createWtfConfigFile\<close>, \<open>chmodConfigFile\<close> and \<open>chmodSecretsFile\<close>, and never
  \<open>createWtfSecretsFile\<close>. On a home directory with no configuration at all, with any
  templates: \<open>Initialize\<close> returns, the configuration file holds its template with
  mode 0600, and the secrets file does not exist; calling \<open>createWtfSecretsFile\<close> on
  the tree \<open>Initialize\<close> leaves would have created it with its template (and the
  mode 0644 that \<open>os.Create\<close> gives it under the creation mask 022).
\<close>

theorem Initialize_skips_secrets_file:
  "Initialize env_alice tmpl False tree_home
     = Returned (tree_of (Initialize env_alice tmpl False tree_home))
   \<and> tree_of (Initialize env_alice tmpl False tree_home) (configFilePath env_alice)
       = Some (File tmpl mode_0600)
   \<and> tree_of (Initialize env_alice tmpl False tree_home) (secretsFilePath env_alice) = None
   \<and> tree_of (createWtfSecretsFile env_alice stmpl
         (tree_of (Initialize env_alice tmpl False tree_home))) (secretsFilePath env_alice)
       = Some (File stmpl 420)"
proof -
  define t2 where "t2 = tree_home(''/home/alice/.config'' \<mapsto> Dir 4096 493)"
  define t3 where "t3 = t2(''/home/alice/.config/wtf'' \<mapsto> Dir 4096 493)"
  define t4 where "t4 = t3(''/home/alice/.config/wtf/config.yml'' \<mapsto> File tmpl 420)"
  define t5 where "t5 = t4(''/home/alice/.config/wtf/config.yml'' \<mapsto> File tmpl mode_0600)"
  have m: "migrateOldConfig env_alice tree_home = Returned tree_home"
    by (simp add: migrateOldConfig_def Let_def alice_paths [unfolded legacyDir_def configDir_def]
        stat_not_exist_def IsNotExist_def alice_stat tree_home_def)
  have x: "createXdgConfigDir env_alice tree_home = Returned t2"
    by (simp add: createXdgConfigDir_def Let_def alice_xdg stat_not_exist_def IsNotExist_def
        alice_stat os_Mkdir_def alice_faults alice_modes parent_check_def parent_def tree_home_def t2_def)
  have w: "createWtfConfigDir env_alice t2 = Returned t3"
    by (simp add: createWtfConfigDir_def Let_def alice_wtf path_or_empty_def stat_not_exist_def
        IsNotExist_def alice_stat os_Mkdir_def alice_faults alice_modes parent_check_def parent_def
        tree_home_def t2_def t3_def)
  have cf: "CreateFile env_alice t3 WtfConfigFile
      = (Inr ''/home/alice/.config/wtf/config.yml'',
         t3(''/home/alice/.config/wtf/config.yml'' \<mapsto> File [] 420))"
    by (simp add: CreateFile_def Let_def alice_wtf WtfConfigFile_def IsNotExist_def alice_stat
        os_Create_def alice_faults alice_modes parent_check_def parent_def tree_home_def t2_def t3_def)
  have c: "createWtfConfigFile env_alice tmpl t3 = Returned t4"
    by (simp add: createWtfConfigFile_def cf alice_stat Size_def ioutil_WriteFile_def
        alice_faults t4_def)
  have h: "chmodConfigFile env_alice t4 = Returned t5"
    by (simp add: chmodConfigFile_def Let_def alice_paths [unfolded configFilePath_def]
        stat_not_exist_def IsNotExist_def alice_stat os_Chmod_def alice_faults t4_def t5_def)
  have s: "chmodSecretsFile env_alice t5 = Returned t5"
    by (simp add: chmodSecretsFile_def Let_def alice_paths [unfolded secretsFilePath_def]
        stat_not_exist_def IsNotExist_def alice_stat tree_home_def t2_def t3_def t4_def t5_def)
  have res: "Initialize env_alice tmpl False tree_home = Returned t5"
    by (simp add: Initialize_def and_then_def m x w c h s)
  have sf: "CreateFile env_alice t5 WtfSecretsFile
      = (Inr ''/home/alice/.config/wtf/secrets.yml'',
         t5(''/home/alice/.config/wtf/secrets.yml'' \<mapsto> File [] 420))"
    by (simp add: CreateFile_def Let_def alice_wtf WtfSecretsFile_def IsNotExist_def alice_stat
        os_Create_def alice_faults alice_modes parent_check_def parent_def tree_home_def t2_def t3_def
        t4_def t5_def)
  have sec: "createWtfSecretsFile env_alice stmpl t5
      = Returned (t5(''/home/alice/.config/wtf/secrets.yml'' \<mapsto> File stmpl 420))"
    by (simp add: createWtfSecretsFile_def sf alice_stat Size_def ioutil_WriteFile_def
        alice_faults)
  show ?thesis
    by (simp add: res sec alice_paths)
      (simp add: tree_home_def t2_def t3_def t4_def t5_def)
qed

end
